theory Spec2Isabelle
  imports Main "HOL-Library.Multiset"
begin

section \<open>Errors\<close>

text \<open>
  The three go-git sentinel errors that \<^verbatim>\<open>repository.go\<close> tests for. A Go error is
  either one of them, some other error (its text), or an error wrapping another one.
  \<^verbatim>\<open>nil\<close> is \<open>None\<close> of \<open>error option\<close>.
\<close>

datatype sentinel = NoErrAlreadyUpToDate | ErrRepositoryAlreadyExists | ErrEmptyRemoteRepository

datatype error = Sentinel sentinel | Other string | Wrap string error

text \<open>\<^verbatim>\<open>errors.Is(err, target)\<close>: walks the chain of wrapped errors; false on \<^verbatim>\<open>nil\<close>.\<close>

fun unwraps_to :: "error \<Rightarrow> sentinel \<Rightarrow> bool" where
  "unwraps_to (Sentinel s) t = (s = t)"
| "unwraps_to (Other m) t = False"
| "unwraps_to (Wrap m e) t = unwraps_to e t"

definition errors_Is :: "error option \<Rightarrow> sentinel \<Rightarrow> bool" where
  "errors_Is err t = (case err of None \<Rightarrow> False | Some e \<Rightarrow> unwraps_to e t)"

text \<open>\<^verbatim>\<open>err.Error()\<close>: the sentinels carry go-git's texts, a wrapper carries its own.\<close>

fun Error :: "error \<Rightarrow> string" where
  "Error (Sentinel NoErrAlreadyUpToDate) = ''already up-to-date''"
| "Error (Sentinel ErrRepositoryAlreadyExists) = ''repository already exists''"
| "Error (Sentinel ErrEmptyRemoteRepository) = ''remote repository is empty''"
| "Error (Other m) = m"
| "Error (Wrap m e) = m"

section \<open>repository.go: the data model\<close>

record Userinfo =
  username :: string
  password :: "string option"

record URL =
  URLString :: string
  User :: "Userinfo option"

record Repository =
  GitURL :: URL
  FullName :: string

record BasicAuth =
  Username :: string
  Password :: string

datatype TagMode = InvalidTagMode | TagFollowing | AllTags | NoTags

text \<open>
  \<^verbatim>\<open>git.FetchOptions\<close> as the code fills it (\<^verbatim>\<open>Progress\<close> is always standard output and is
  left out). A field the code does not set has Go's zero value.
\<close>

record CloneOptions =
  CloneURL :: string
  CloneAuth :: "BasicAuth option"
  Mirror :: bool

record FetchOptions =
  Auth :: "BasicAuth option"
  RefSpecs :: "string list"
  Tags :: TagMode
  Force :: bool

text \<open>The lines \<^verbatim>\<open>log.Printf\<close> writes in \<^verbatim>\<open>repository.go\<close>, one constructor per format.\<close>

datatype log_line =
    LogStartingMirrorClone string        \<comment> \<open>Starting mirror clone for %s\<close>
  | LogFetchingAll string                \<comment> \<open>Fetching all branches and tags for %s\<close>
  | LogBranchFetchFailed string error    \<comment> \<open>Branch fetch failed for %s: %v\<close>
  | LogTagFetchFailed string error       \<comment> \<open>Tag fetch failed for %s: %v\<close>
  | LogEmptyRepository string            \<comment> \<open>%s is an empty repository\<close>
  | LogAlreadyUpToDate string            \<comment> \<open>No need to pull, %s is already up-to-date\<close>
  | LogAllRefsUpToDate string            \<comment> \<open>All refs up-to-date for %s\<close>

text \<open>
  What one call of \<^verbatim>\<open>CloneInto\<close> does to the outside, in order: the go-git calls with
  their results, the garbage collections it forces and the lines it logs. The memory
  statistics of \<^verbatim>\<open>logMemoryUsage\<close> are advisory and are not recorded.
\<close>

datatype event =
    EvPlainClone string bool CloneOptions "error option"
  | EvPlainOpen string "error option"
  | EvConfig
  | EvWorktree
  | EvPull "BasicAuth option" "error option"
  | EvFetch FetchOptions "error option"
  | EvGC
  | Log log_line

text \<open>
  The go-git library is not part of the repository: its answers are the environment.
  Every call but \<^verbatim>\<open>Fetch\<close> happens at most once per \<^verbatim>\<open>CloneInto\<close>; \<^verbatim>\<open>Fetch\<close> is called
  several times, and \<open>fetch_result env n\<close> is the answer to the call number \<open>n\<close> (from 0)
  of this \<^verbatim>\<open>CloneInto\<close>. The repository handle is not modelled: go-git returns a usable
  handle from \<^verbatim>\<open>PlainClone\<close> once the repository is initialised and from \<^verbatim>\<open>PlainOpen\<close>
  when it returns no error.
\<close>

record git_env =
  clone_result :: "error option"
  open_result :: "error option"
  config_result :: "error + bool"
  worktree_result :: "error option"
  pull_result :: "error option"
  fetch_result :: "nat \<Rightarrow> error option"

section \<open>repository.go: the sync engine\<close>

fun is_fetch :: "event \<Rightarrow> bool" where
  "is_fetch (EvFetch opts res) = True"
| "is_fetch ev = False"

definition git_Fetch :: "git_env \<Rightarrow> FetchOptions \<Rightarrow> event list \<Rightarrow> error option \<times> event list" where
  "git_Fetch env opts tr =
     (let res = fetch_result env (length (filter is_fetch tr))
      in (res, tr @ [EvFetch opts res]))"

definition branch_fetch :: "BasicAuth option \<Rightarrow> FetchOptions" where
  "branch_fetch auth =
     \<lparr>Auth = auth, RefSpecs = [''+refs/heads/*:refs/heads/*''], Tags = InvalidTagMode, Force = True\<rparr>"

definition tag_fetch :: "BasicAuth option \<Rightarrow> FetchOptions" where
  "tag_fetch auth = \<lparr>Auth = auth, RefSpecs = [], Tags = AllTags, Force = True\<rparr>"

definition tag_fallback_fetch :: "BasicAuth option \<Rightarrow> FetchOptions" where
  "tag_fallback_fetch auth =
     \<lparr>Auth = auth, RefSpecs = [''+refs/tags/*:refs/tags/*''], Tags = InvalidTagMode, Force = True\<rparr>"

text \<open>The test \<^verbatim>\<open>err != nil && err != git.NoErrAlreadyUpToDate\<close> (an identity comparison).\<close>

definition fetch_failed :: "error option \<Rightarrow> bool" where
  "fetch_failed err = (err \<noteq> None \<and> err \<noteq> Some (Sentinel NoErrAlreadyUpToDate))"

definition log_failure :: "(error \<Rightarrow> log_line) \<Rightarrow> error option \<Rightarrow> event list" where
  "log_failure line err = (case err of None \<Rightarrow> [] | Some e \<Rightarrow> [Log (line e)])"

definition fetchAllRefs ::
  "git_env \<Rightarrow> Repository \<Rightarrow> BasicAuth option \<Rightarrow> event list \<Rightarrow> error option \<times> event list" where
  "fetchAllRefs env r auth tr0 =
     (let tr1 = tr0 @ [Log (LogFetchingAll (FullName r))];
          (err1, tr2) = git_Fetch env (branch_fetch auth) tr1;
          tr3 = (if fetch_failed err1
                 then tr2 @ log_failure (LogBranchFetchFailed (FullName r)) err1 else tr2);
          tr4 = tr3 @ [EvGC];
          (err2, tr5) = git_Fetch env (tag_fetch auth) tr4
      in if fetch_failed err2
         then git_Fetch env (tag_fallback_fetch auth)
                (tr5 @ log_failure (LogTagFetchFailed (FullName r)) err2)
         else (err2, tr5))"

definition auth_of :: "Repository \<Rightarrow> BasicAuth option" where
  "auth_of r =
     (case User (GitURL r) of
        None \<Rightarrow> None
      | Some u \<Rightarrow>
          Some \<lparr>Username = username u,
                Password = (case password u of None \<Rightarrow> [] | Some p \<Rightarrow> p)\<rparr>)"

text \<open>\<^verbatim>\<open>isBare\<close>: the repository's configuration, or its error with \<^verbatim>\<open>false\<close>.\<close>

definition isBare :: "git_env \<Rightarrow> bool \<times> error option" where
  "isBare env = (case config_result env of Inl e \<Rightarrow> (False, Some e) | Inr b \<Rightarrow> (b, None))"

text \<open>
  The branch of \<^verbatim>\<open>CloneInto\<close> taken when the clone reports an existing repository: open
  it, pull when it has a working tree, fetch all refs otherwise.
\<close>

definition open_existing ::
  "git_env \<Rightarrow> Repository \<Rightarrow> string \<Rightarrow> BasicAuth option \<Rightarrow> event list \<Rightarrow> error option \<times> event list" where
  "open_existing env r path auth tr0 =
     (let tr1 = tr0 @ [EvPlainOpen path (open_result env)]
      in if open_result env = None
         then (let (bare, bErr) = isBare env; tr2 = tr1 @ [EvConfig]
               in if bErr = None \<and> \<not> bare
                  then (case worktree_result env of
                          Some wErr \<Rightarrow> (Some wErr, tr2 @ [EvWorktree])
                        | None \<Rightarrow>
                            (pull_result env, tr2 @ [EvWorktree, EvPull auth (pull_result env)]))
                  else fetchAllRefs env r auth tr2)
         else (open_result env, tr1))"

text \<open>\<^verbatim>\<open>CloneInto\<close> up to its first \<^verbatim>\<open>switch\<close>: the clone attempt and the update of an existing repository.\<close>

definition clone_or_update ::
  "git_env \<Rightarrow> Repository \<Rightarrow> string \<Rightarrow> bool \<Rightarrow> event list \<Rightarrow> error option \<times> event list" where
  "clone_or_update env r path bare tr0 =
     (let auth = auth_of r;
          tr1 = tr0 @ [Log (LogStartingMirrorClone (FullName r)),
                       EvPlainClone path bare
                         \<lparr>CloneURL = URLString (GitURL r), CloneAuth = auth, Mirror = True\<rparr>
                         (clone_result env)]
      in if errors_Is (clone_result env) ErrRepositoryAlreadyExists
         then open_existing env r path auth tr1
         else (clone_result env, tr1))"

text \<open>The last case of the first \<^verbatim>\<open>switch\<close> and the second \<^verbatim>\<open>switch\<close>: the final refresh of all refs.\<close>

definition final_refresh ::
  "git_env \<Rightarrow> Repository \<Rightarrow> event list \<Rightarrow> error option \<times> event list" where
  "final_refresh env r tr0 =
     (let (err, tr1) = fetchAllRefs env r (auth_of r) (tr0 @ [Log (LogFetchingAll (FullName r))]);
          tr2 = tr1 @ [EvGC]
      in if err = Some (Sentinel NoErrAlreadyUpToDate)
         then (None, tr2 @ [Log (LogAllRefsUpToDate (FullName r))])
         else (err, tr2))"

text \<open>
  Go evaluates the cases of an expressionless \<^verbatim>\<open>switch\<close> in textual order and takes
  \<^verbatim>\<open>default\<close> last, wherever it is written.
\<close>

definition CloneInto ::
  "git_env \<Rightarrow> Repository \<Rightarrow> string \<Rightarrow> bool \<Rightarrow> event list \<Rightarrow> error option \<times> event list" where
  "CloneInto env r path bare tr0 =
     (let (err, tr1) = clone_or_update env r path bare tr0
      in if errors_Is err ErrEmptyRemoteRepository
         then (None, tr1 @ [Log (LogEmptyRepository (FullName r))])
         else if errors_Is err NoErrAlreadyUpToDate
         then final_refresh env r (tr1 @ [Log (LogAlreadyUpToDate (FullName r))])
         else if err = None
         then final_refresh env r tr1
         else (err, tr1))"

section \<open>slack.go and main.go: the notifier\<close>

text \<open>
  \<^verbatim>\<open>BackupResult\<close>; times are nanoseconds. \<^verbatim>\<open>slack.go\<close> and \<^verbatim>\<open>main.go\<close> each declare it,
  with \<^verbatim>\<open>SendSlackNotification\<close>, in the same words.
\<close>

record BackupResult =
  RepoCount :: int
  ErrorCount :: int
  Duration :: int
  FailedRepos :: "string list"
  StartTime :: int
  EndTime :: int
  Success :: bool

text \<open>
  The outside of \<^verbatim>\<open>SendSlackNotification\<close>: what \<^verbatim>\<open>json.Marshal\<close> makes of the message built
  for a result, and what \<^verbatim>\<open>http.Post\<close> answers, an error or a response with its status code.
\<close>

record http_env =
  marshal_message :: "BackupResult \<Rightarrow> error + string"
  post :: "string \<Rightarrow> string \<Rightarrow> error + int"

definition StatusOK :: int where
  "StatusOK = 200"

text \<open>\<^verbatim>\<open>%d\<close> of \<^verbatim>\<open>fmt\<close>: a number in decimal.\<close>

definition digit :: "nat \<Rightarrow> char" where
  "digit n = ''0123456789'' ! n"

function decimal :: "nat \<Rightarrow> string" where
  "decimal n = (if n < 10 then [digit n] else decimal (n div 10) @ [digit (n mod 10)])"
  by pat_completeness auto
termination
  by (relation "measure (\<lambda>n. n)") auto

definition sprint_d :: "int \<Rightarrow> string" where
  "sprint_d i = (if i < 0 then CHR ''-'' # decimal (nat (- i)) else decimal (nat i))"

definition SendSlackNotification :: "http_env \<Rightarrow> string \<Rightarrow> BackupResult \<Rightarrow> error option" where
  "SendSlackNotification net webhookURL result =
     (if webhookURL = []
      then Some (Other ''Slack webhook URL is not configured'')
      else case marshal_message net result of
             Inl err \<Rightarrow> Some (Other (''failed to marshal Slack message: '' @ Error err))
           | Inr payload \<Rightarrow>
               (case post net webhookURL payload of
                  Inl err \<Rightarrow> Some (Other (''failed to send Slack notification: '' @ Error err))
                | Inr StatusCode \<Rightarrow>
                    if StatusCode \<noteq> StatusOK
                    then Some (Other (''Slack API returned status code: '' @ sprint_d StatusCode))
                    else None))"

section \<open>main.go: the run\<close>

record RepositorySource =
  GetName :: string
  Test :: "error option"
  ListRepositories :: "error + Repository list"

text \<open>
  The command-line flags the run reads. \<^verbatim>\<open>config.file\<close> only names the file that
  \<^verbatim>\<open>LoadFile\<close> reads and \<^verbatim>\<open>insecure\<close> only configures TLS: both belong to the world below.
\<close>

record flags =
  targetPath :: string
  failAtEnd :: bool
  bareClone :: bool
  printVersion :: bool
  slackWebhook :: string

text \<open>
  The outside of a run: the environment variable, the configuration file as
  \<^verbatim>\<open>gitbackup.LoadFile\<close> and \<^verbatim>\<open>GetSources\<close> read it (neither is among the sources), the
  file system and go-git at each target path (a run visits a path once), and the clock:
  \<open>clock w n\<close> is the reading number \<open>n\<close> of \<^verbatim>\<open>time.Now\<close>.
\<close>

record world =
  SLACK_WEBHOOK_URL :: string
  LoadFile :: "error + RepositorySource list"
  MkdirAll :: "string \<Rightarrow> error option"
  git :: "string \<Rightarrow> git_env"
  clock :: "nat \<Rightarrow> int"

text \<open>The calls of the loop body, with their results, in order.\<close>

datatype call =
    CallMkdirAll string "error option"
  | CallCloneInto string "error option"

text \<open>
  The variables \<^verbatim>\<open>main\<close> updates while it runs, and the calls made so far. The counters
  are Go \<^verbatim>\<open>int\<close>s that count repositories held in memory: they stay far below \<open>2^63\<close> and
  are unbounded integers here.
\<close>

record run_state =
  repoCount :: int
  errors :: int
  failedRepos :: "string list"
  calls :: "call list"

text \<open>How the process ends: the exit code, the result handed to the notifier if any, the last state.\<close>

record outcome =
  exit_code :: int
  notification :: "BackupResult option"
  last_state :: run_state

text \<open>\<^verbatim>\<open>filepath.Join\<close>: the non-empty elements, separated; the cleaning of the result is left out.\<close>

fun filepath_Join :: "string list \<Rightarrow> string" where
  "filepath_Join [] = []"
| "filepath_Join (e # es) =
     (if e = [] then filepath_Join es
      else if filepath_Join es = [] then e
      else e @ ''/'' @ filepath_Join es)"

text \<open>
  The block repeated before each fatal \<^verbatim>\<open>os.Exit\<close>: with a webhook, build a failed result and
  hand it to the notifier; then exit. The clock is read for the duration and for the end.
\<close>

definition notify_and_exit ::
  "world \<Rightarrow> string \<Rightarrow> int \<Rightarrow> int \<Rightarrow> string list \<Rightarrow> int \<Rightarrow> run_state \<Rightarrow> outcome" where
  "notify_and_exit w webhookURL n e failed code st =
     \<lparr>exit_code = code,
      notification =
        (if webhookURL \<noteq> []
         then Some \<lparr>RepoCount = n, ErrorCount = e, Duration = clock w 1 - clock w 0,
                    FailedRepos = failed, StartTime = clock w 0, EndTime = clock w 2,
                    Success = False\<rparr>
         else None),
      last_state = st\<rparr>"

definition target_of :: "flags \<Rightarrow> string \<Rightarrow> Repository \<Rightarrow> string" where
  "target_of fl sourceName repo = filepath_Join [targetPath fl, sourceName, FullName repo]"

text \<open>The inner loop, over the repositories of one source. \<open>Inl\<close> is the process exiting.\<close>

fun backup_repos ::
  "flags \<Rightarrow> world \<Rightarrow> string \<Rightarrow> string \<Rightarrow> Repository list \<Rightarrow> run_state \<Rightarrow> outcome + run_state" where
  "backup_repos fl w webhookURL sourceName [] st = Inr st"
| "backup_repos fl w webhookURL sourceName (repo # repos) st =
     (let path = target_of fl sourceName repo;
          st1 = st\<lparr>calls := calls st @ [CallMkdirAll path (MkdirAll w path)]\<rparr>
      in case MkdirAll w path of
           Some err \<Rightarrow>
             (let st2 = st1\<lparr>errors := errors st1 + 1,
                            failedRepos := failedRepos st1 @
                              [FullName repo @ '' (directory creation failed)'']\<rparr>
              in if \<not> failAtEnd fl
                 then Inl (notify_and_exit w webhookURL (repoCount st2) (errors st2)
                             (failedRepos st2) 100 st2)
                 else backup_repos fl w webhookURL sourceName repos st2)
         | None \<Rightarrow>
             (let res = fst (CloneInto (git w path) repo path (bareClone fl) []);
                  st2 = st1\<lparr>calls := calls st1 @ [CallCloneInto path res]\<rparr>
              in case res of
                   Some err \<Rightarrow>
                     (let st3 = st2\<lparr>errors := errors st2 + 1,
                                    failedRepos := failedRepos st2 @
                                      [FullName repo @ '' ('' @ Error err @ '')'']\<rparr>
                      in if \<not> failAtEnd fl
                         then Inl (notify_and_exit w webhookURL (repoCount st3) (errors st3)
                                     (failedRepos st3) 100 st3)
                         else backup_repos fl w webhookURL sourceName repos
                                (st3\<lparr>repoCount := repoCount st3 + 1\<rparr>))
                 | None \<Rightarrow>
                     backup_repos fl w webhookURL sourceName repos
                       (st2\<lparr>repoCount := repoCount st2 + 1\<rparr>)))"

text \<open>The outer loop, over the sources.\<close>

fun backup_sources ::
  "flags \<Rightarrow> world \<Rightarrow> string \<Rightarrow> RepositorySource list \<Rightarrow> run_state \<Rightarrow> outcome + run_state" where
  "backup_sources fl w webhookURL [] st = Inr st"
| "backup_sources fl w webhookURL (source # sources) st =
     (let sourceName = GetName source
      in case Test source of
           Some err \<Rightarrow>
             Inl (notify_and_exit w webhookURL 0 1
                    [''Connection failed to '' @ sourceName @ '': '' @ Error err] 110 st)
         | None \<Rightarrow>
             (case ListRepositories source of
                Inl err \<Rightarrow>
                  Inl (notify_and_exit w webhookURL 0 1
                         [''Communication error with '' @ sourceName @ '': '' @ Error err] 100 st)
              | Inr repos \<Rightarrow>
                  (case backup_repos fl w webhookURL sourceName repos st of
                     Inl out \<Rightarrow> Inl out
                   | Inr st' \<Rightarrow> backup_sources fl w webhookURL sources st')))"

definition initial_state :: run_state where
  "initial_state = \<lparr>repoCount = 0, errors = 0, failedRepos = [], calls = []\<rparr>"

text \<open>
  \<^verbatim>\<open>main\<close>, with \<^verbatim>\<open>loadConfig\<close> in its place. Returning from \<^verbatim>\<open>main\<close> is exit code 0. The
  delivery of the notification changes nothing but a log line.
\<close>

definition main :: "flags \<Rightarrow> world \<Rightarrow> outcome" where
  "main fl w =
     (if printVersion fl
      then \<lparr>exit_code = 0, notification = None, last_state = initial_state\<rparr>
      else
        let webhookURL = (if slackWebhook fl = [] then SLACK_WEBHOOK_URL w else slackWebhook fl)
        in case LoadFile w of
             Inl err \<Rightarrow> \<lparr>exit_code = 1, notification = None, last_state = initial_state\<rparr>
           | Inr sources \<Rightarrow>
               if length sources = 0
               then \<lparr>exit_code = 111, notification = None, last_state = initial_state\<rparr>
               else
                 (case backup_sources fl w webhookURL sources initial_state of
                    Inl out \<Rightarrow> out
                  | Inr st \<Rightarrow>
                      \<lparr>exit_code = (if errors st > 0 then 100 else 0),
                       notification =
                         (if webhookURL \<noteq> []
                          then Some \<lparr>RepoCount = repoCount st, ErrorCount = errors st,
                                     Duration = clock w 1 - clock w 0,
                                     FailedRepos = failedRepos st, StartTime = clock w 0,
                                     EndTime = clock w 1, Success = (errors st = 0)\<rparr>
                          else None),
                       last_state = st\<rparr>))"

section \<open>Observations on a run\<close>

text \<open>The results and the options of the fetches of a trace, in order.\<close>

fun fetch_results :: "event list \<Rightarrow> error option list" where
  "fetch_results [] = []"
| "fetch_results (EvFetch opts res # evs) = res # fetch_results evs"
| "fetch_results (ev # evs) = fetch_results evs"

fun fetch_options :: "event list \<Rightarrow> FetchOptions list" where
  "fetch_options [] = []"
| "fetch_options (EvFetch opts res # evs) = opts # fetch_options evs"
| "fetch_options (ev # evs) = fetch_options evs"

text \<open>
  \<^verbatim>\<open>CloneInto\<close> reaches its final refresh when the first \<^verbatim>\<open>switch\<close> takes neither the
  empty-repository case nor \<^verbatim>\<open>default\<close>.
\<close>

definition reaches_final_refresh ::
  "git_env \<Rightarrow> Repository \<Rightarrow> string \<Rightarrow> bool \<Rightarrow> event list \<Rightarrow> bool" where
  "reaches_final_refresh env r path bare tr =
     (let err = fst (clone_or_update env r path bare tr)
      in \<not> errors_Is err ErrEmptyRemoteRepository \<and>
         (errors_Is err NoErrAlreadyUpToDate \<or> err = None))"

text \<open>What the loop body meets at one repository of a source.\<close>

definition sync_result :: "flags \<Rightarrow> world \<Rightarrow> string \<Rightarrow> Repository \<Rightarrow> error option" where
  "sync_result fl w sourceName repo =
     fst (CloneInto (git w (target_of fl sourceName repo)) repo (target_of fl sourceName repo)
            (bareClone fl) [])"

definition dir_created :: "flags \<Rightarrow> world \<Rightarrow> string \<Rightarrow> Repository \<Rightarrow> bool" where
  "dir_created fl w sourceName repo = (MkdirAll w (target_of fl sourceName repo) = None)"

definition repo_failed :: "flags \<Rightarrow> world \<Rightarrow> string \<Rightarrow> Repository \<Rightarrow> bool" where
  "repo_failed fl w sourceName repo =
     (case MkdirAll w (target_of fl sourceName repo) of
        Some err \<Rightarrow> True
      | None \<Rightarrow> sync_result fl w sourceName repo \<noteq> None)"

definition failure_texts :: "flags \<Rightarrow> world \<Rightarrow> string \<Rightarrow> Repository \<Rightarrow> string list" where
  "failure_texts fl w sourceName repo =
     (case MkdirAll w (target_of fl sourceName repo) of
        Some err \<Rightarrow> [FullName repo @ '' (directory creation failed)'']
      | None \<Rightarrow>
          (case sync_result fl w sourceName repo of
             Some err \<Rightarrow> [FullName repo @ '' ('' @ Error err @ '')'']
           | None \<Rightarrow> []))"

definition repo_calls :: "flags \<Rightarrow> world \<Rightarrow> string \<Rightarrow> Repository \<Rightarrow> call list" where
  "repo_calls fl w sourceName repo =
     (let path = target_of fl sourceName repo
      in CallMkdirAll path (MkdirAll w path) #
         (case MkdirAll w path of
            Some err \<Rightarrow> []
          | None \<Rightarrow> [CallCloneInto path (sync_result fl w sourceName repo)]))"

text \<open>The state after the loop has gone through all of \<open>repos\<close> without exiting.\<close>

definition after_repos ::
  "flags \<Rightarrow> world \<Rightarrow> string \<Rightarrow> Repository list \<Rightarrow> run_state \<Rightarrow> run_state" where
  "after_repos fl w sourceName repos st =
     st\<lparr>repoCount := repoCount st + int (length (filter (dir_created fl w sourceName) repos)),
        errors := errors st + int (length (filter (repo_failed fl w sourceName) repos)),
        failedRepos := failedRepos st @ concat (map (failure_texts fl w sourceName) repos),
        calls := calls st @ concat (map (repo_calls fl w sourceName) repos)\<rparr>"

definition counts_agree :: "run_state \<Rightarrow> bool" where
  "counts_agree st = (errors st = int (length (failedRepos st)))"

definition result_agrees :: "outcome \<Rightarrow> bool" where
  "result_agrees out =
     (case notification out of
        None \<Rightarrow> True
      | Some res \<Rightarrow> ErrorCount res = int (length (FailedRepos res)))"

text \<open>
  A source is healthy when it can be reached and lists its repositories. \<open>listed\<close> pairs
  every repository the sources list with the name of its source, in the order of the run.
\<close>

definition healthy :: "RepositorySource \<Rightarrow> bool" where
  "healthy s = (Test s = None \<and> (case ListRepositories s of Inl err \<Rightarrow> False | Inr repos \<Rightarrow> True))"

definition repos_of :: "RepositorySource \<Rightarrow> Repository list" where
  "repos_of s = (case ListRepositories s of Inl err \<Rightarrow> [] | Inr repos \<Rightarrow> repos)"

definition listed :: "RepositorySource list \<Rightarrow> (string \<times> Repository) list" where
  "listed srcs = concat (map (\<lambda>s. map (Pair (GetName s)) (repos_of s)) srcs)"

definition after_listed ::
  "flags \<Rightarrow> world \<Rightarrow> (string \<times> Repository) list \<Rightarrow> run_state \<Rightarrow> run_state" where
  "after_listed fl w ls st =
     st\<lparr>repoCount := repoCount st + int (length (filter (\<lambda>(n, r). dir_created fl w n r) ls)),
        errors := errors st + int (length (filter (\<lambda>(n, r). repo_failed fl w n r) ls)),
        failedRepos := failedRepos st @ concat (map (\<lambda>(n, r). failure_texts fl w n r) ls),
        calls := calls st @ concat (map (\<lambda>(n, r). repo_calls fl w n r) ls)\<rparr>"

definition none_failed :: "flags \<Rightarrow> world \<Rightarrow> (string \<times> Repository) list \<Rightarrow> bool" where
  "none_failed fl w ls = (\<forall>(n, r)\<in>set ls. \<not> repo_failed fl w n r)"


section \<open>Concrete runs\<close>

definition repo_a :: Repository where
  "repo_a = \<lparr>GitURL = \<lparr>URLString = ''https://example.org/org/a.git'', User = None\<rparr>,
             FullName = ''org/a''\<rparr>"

text \<open>An existing bare mirror whose remote has not changed: every fetch answers up to date.\<close>

definition existing_bare_up_to_date :: git_env where
  "existing_bare_up_to_date =
     \<lparr>clone_result = Some (Sentinel ErrRepositoryAlreadyExists), open_result = None,
      config_result = Inr True, worktree_result = None, pull_result = None,
      fetch_result = (\<lambda>n. Some (Sentinel NoErrAlreadyUpToDate))\<rparr>"


text \<open>A remote without commits: the clone fails with the empty-repository error, wrapped.\<close>

definition empty_remote :: git_env where
  "empty_remote =
     \<lparr>clone_result = Some (Wrap ''clone: remote repository is empty'' (Sentinel ErrEmptyRemoteRepository)),
      open_result = None, config_result = Inr True, worktree_result = None, pull_result = None,
      fetch_result = (\<lambda>n. None)\<rparr>"

text \<open>A fresh clone that succeeds; the fetches after it find nothing new.\<close>

definition fresh_clone :: git_env where
  "fresh_clone =
     \<lparr>clone_result = None, open_result = None, config_result = Inr True, worktree_result = None,
      pull_result = None, fetch_result = (\<lambda>n. Some (Sentinel NoErrAlreadyUpToDate))\<rparr>"

definition repo_b :: Repository where
  "repo_b = \<lparr>GitURL = \<lparr>URLString = ''https://example.org/org/b.git'', User = None\<rparr>,
             FullName = ''org/b''\<rparr>"

definition repo_c :: Repository where
  "repo_c = \<lparr>GitURL = \<lparr>URLString = ''https://example.org/org/c.git'', User = None\<rparr>,
             FullName = ''org/c''\<rparr>"

text \<open>A remote that cannot be reached: the clone fails with a network error.\<close>

definition network_down :: git_env where
  "network_down =
     \<lparr>clone_result = Some (Other ''dial tcp: connection refused''), open_result = None,
      config_result = Inr True, worktree_result = None, pull_result = None,
      fetch_result = (\<lambda>n. None)\<rparr>"

definition flags_fail_at_end :: flags where
  "flags_fail_at_end =
     \<lparr>targetPath = ''backup'', failAtEnd = True, bareClone = False, printVersion = False,
      slackWebhook = ''https://hooks.example.org/T''\<rparr>"


definition source_one :: RepositorySource where
  "source_one = \<lparr>GetName = ''github'', Test = None, ListRepositories = Inr [repo_a]\<rparr>"

definition source_three :: RepositorySource where
  "source_three =
     \<lparr>GetName = ''github'', Test = None, ListRepositories = Inr [repo_a, repo_b, repo_c]\<rparr>"



text \<open>One source with three repositories: an empty one, an unreachable one, a healthy one.\<close>

definition world_three :: world where
  "world_three =
     \<lparr>SLACK_WEBHOOK_URL = [],
      LoadFile = Inr [source_three],
      MkdirAll = (\<lambda>p. None),
      git = (\<lambda>p. if p = ''backup/github/org/a'' then empty_remote
                  else if p = ''backup/github/org/b'' then network_down
                  else fresh_clone),
      clock = (\<lambda>n. 1000 * int n)\<rparr>"

text \<open>One source with one repository whose directory cannot be created.\<close>

definition world_no_directory :: world where
  "world_no_directory =
     \<lparr>SLACK_WEBHOOK_URL = [],
      LoadFile = Inr [source_one],
      MkdirAll = (\<lambda>p. Some (Other ''mkdir backup: permission denied'')),
      git = (\<lambda>p. fresh_clone),
      clock = (\<lambda>n. 1000 * int n)\<rparr>"






text \<open>A webhook endpoint that answers every POST with the given status.\<close>

definition answers :: "int \<Rightarrow> http_env" where
  "answers status = \<lparr>marshal_message = (\<lambda>res. Inr ''{}''), post = (\<lambda>url body. Inr status)\<rparr>"

definition some_result :: BackupResult where
  "some_result =
     \<lparr>RepoCount = 3, ErrorCount = 0, Duration = 1000, FailedRepos = [], StartTime = 0,
      EndTime = 1000, Success = True\<rparr>"

text \<open>Three repositories: no directory for the first, no network for the second.\<close>

definition world_mixed :: world where
  "world_mixed =
     \<lparr>SLACK_WEBHOOK_URL = [],
      LoadFile = Inr [source_three],
      MkdirAll = (\<lambda>p. if p = ''backup/github/org/a''
                        then Some (Other ''mkdir backup: permission denied'') else None),
      git = (\<lambda>p. if p = ''backup/github/org/b'' then network_down else fresh_clone),
      clock = (\<lambda>n. 1000 * int n)\<rparr>"

section \<open>Properties of the sync engine\<close>

lemma unwraps_to_unique: "unwraps_to e s \<Longrightarrow> unwraps_to e t \<Longrightarrow> s = t"
  by (induction e) auto

lemma errors_Is_unique: "errors_Is err s \<Longrightarrow> errors_Is err t \<Longrightarrow> s = t"
  by (auto simp: errors_Is_def split: option.splits dest: unwraps_to_unique)

lemma errors_Is_None [simp]: "\<not> errors_Is None t"
  by (simp add: errors_Is_def)

lemma errors_Is_Sentinel [simp]: "errors_Is (Some (Sentinel s)) t = (s = t)"
  by (simp add: errors_Is_def)

lemma fetch_results_append [simp]: "fetch_results (xs @ ys) = fetch_results xs @ fetch_results ys"
  by (induction xs rule: fetch_results.induct) auto

lemma fetch_options_append [simp]: "fetch_options (xs @ ys) = fetch_options xs @ fetch_options ys"
  by (induction xs rule: fetch_options.induct) auto

lemma fetch_results_log_failure [simp]: "fetch_results (log_failure l e) = []"
  by (simp add: log_failure_def split: option.splits)

lemma fetch_options_log_failure [simp]: "fetch_options (log_failure l e) = []"
  by (simp add: log_failure_def split: option.splits)

lemma fetchAllRefs_trace:
  "snd (fetchAllRefs env r auth tr) =
     (let n = length (filter is_fetch tr);
          b = fetch_result env n; t = fetch_result env (Suc n); f = fetch_result env (Suc (Suc n))
      in tr @ [Log (LogFetchingAll (FullName r)), EvFetch (branch_fetch auth) b]
            @ (if fetch_failed b then log_failure (LogBranchFetchFailed (FullName r)) b else [])
            @ [EvGC, EvFetch (tag_fetch auth) t]
            @ (if fetch_failed t
               then log_failure (LogTagFetchFailed (FullName r)) t
                    @ [EvFetch (tag_fallback_fetch auth) f]
               else []))"
  by (auto simp: fetchAllRefs_def git_Fetch_def Let_def log_failure_def fetch_failed_def
      split: option.splits)

lemma fetchAllRefs_result:
  "fst (fetchAllRefs env r auth tr) =
     (let n = length (filter is_fetch tr); t = fetch_result env (Suc n)
      in if fetch_failed t then fetch_result env (Suc (Suc n)) else t)"
  by (auto simp: fetchAllRefs_def git_Fetch_def Let_def log_failure_def fetch_failed_def
      split: option.splits)

lemma fetchAllRefs_last_fetch:
  "fetch_results (snd (fetchAllRefs env r auth tr)) \<noteq> [] \<and>
   last (fetch_results (snd (fetchAllRefs env r auth tr))) = fst (fetchAllRefs env r auth tr)"
  by (simp add: fetchAllRefs_trace fetchAllRefs_result Let_def)

lemma final_refresh_result:
  "fetch_results (snd (final_refresh env r tr)) \<noteq> [] \<and>
   fst (final_refresh env r tr) =
     (if last (fetch_results (snd (final_refresh env r tr))) = Some (Sentinel NoErrAlreadyUpToDate)
      then None else last (fetch_results (snd (final_refresh env r tr)))) \<and>
   last (snd (final_refresh env r tr)) =
     (if last (fetch_results (snd (final_refresh env r tr))) = Some (Sentinel NoErrAlreadyUpToDate)
      then Log (LogAllRefsUpToDate (FullName r)) else EvGC)"
proof -
  obtain err tr1 where
    f: "fetchAllRefs env r (auth_of r) (tr @ [Log (LogFetchingAll (FullName r))]) = (err, tr1)"
    by (cases "fetchAllRefs env r (auth_of r) (tr @ [Log (LogFetchingAll (FullName r))])")
  from fetchAllRefs_last_fetch [of env r "auth_of r" "tr @ [Log (LogFetchingAll (FullName r))]"] f
  have l: "fetch_results tr1 \<noteq> []" "last (fetch_results tr1) = err" by simp_all
  show ?thesis
    using l by (simp add: final_refresh_def f Let_def)
qed

lemma CloneInto_empty_clone:
  assumes "errors_Is (clone_result env) ErrEmptyRemoteRepository"
  shows "CloneInto env r path bare tr =
           (None, tr @ [Log (LogStartingMirrorClone (FullName r)),
                        EvPlainClone path bare
                          \<lparr>CloneURL = URLString (GitURL r), CloneAuth = auth_of r, Mirror = True\<rparr>
                          (clone_result env),
                        Log (LogEmptyRepository (FullName r))])"
proof -
  from assms have "\<not> errors_Is (clone_result env) ErrRepositoryAlreadyExists"
    using errors_Is_unique by blast
  with assms show ?thesis
    by (simp add: CloneInto_def clone_or_update_def Let_def)
qed

text \<open>
  C6. In every execution of \<^verbatim>\<open>fetchAllRefs\<close> the trace is: the branch fetch, a log line
  when it failed with anything but already-up-to-date, the garbage collection, the tag
  fetch (attempted whatever the branch fetch answered), and the fallback tag fetch when
  the tag fetch failed. The value returned is the answer of the tag fetch or of the
  fallback; changing the answer of the branch fetch does not change it.
\<close>

theorem fetchAllRefs_branch_failure_not_returned:
  "snd (fetchAllRefs env r auth tr) =
     tr @ [Log (LogFetchingAll (FullName r)),
           EvFetch (branch_fetch auth) (fetch_result env (length (filter is_fetch tr)))]
        @ (if fetch_failed (fetch_result env (length (filter is_fetch tr)))
           then log_failure (LogBranchFetchFailed (FullName r))
                  (fetch_result env (length (filter is_fetch tr)))
           else [])
        @ [EvGC, EvFetch (tag_fetch auth) (fetch_result env (Suc (length (filter is_fetch tr))))]
        @ (if fetch_failed (fetch_result env (Suc (length (filter is_fetch tr))))
           then log_failure (LogTagFetchFailed (FullName r))
                  (fetch_result env (Suc (length (filter is_fetch tr))))
                @ [EvFetch (tag_fallback_fetch auth)
                     (fetch_result env (Suc (Suc (length (filter is_fetch tr)))))]
           else [])
   \<and> fst (fetchAllRefs env r auth tr) =
       (if fetch_failed (fetch_result env (Suc (length (filter is_fetch tr))))
        then fetch_result env (Suc (Suc (length (filter is_fetch tr))))
        else fetch_result env (Suc (length (filter is_fetch tr))))
   \<and> (\<forall>b. fst (fetchAllRefs
                  (env\<lparr>fetch_result := (fetch_result env)(length (filter is_fetch tr) := b)\<rparr>)
                  r auth tr)
          = fst (fetchAllRefs env r auth tr))"
  by (simp add: fetchAllRefs_trace fetchAllRefs_result Let_def)

text \<open>
  C4. When \<^verbatim>\<open>CloneInto\<close> reaches its final refresh, a fetch is performed and the answer of
  the last fetch decides the result: already-up-to-date gives \<^verbatim>\<open>nil\<close> (and the line
  "All refs up-to-date" is the last thing logged), \<^verbatim>\<open>nil\<close> gives \<^verbatim>\<open>nil\<close>, and any other error
  is returned as it is.
\<close>

theorem CloneInto_final_fetch_decides:
  assumes "reaches_final_refresh env r path bare tr"
  shows "fetch_results (snd (CloneInto env r path bare tr)) \<noteq> [] \<and>
         fst (CloneInto env r path bare tr) =
           (if last (fetch_results (snd (CloneInto env r path bare tr)))
                 = Some (Sentinel NoErrAlreadyUpToDate)
            then None else last (fetch_results (snd (CloneInto env r path bare tr)))) \<and>
         last (snd (CloneInto env r path bare tr)) =
           (if last (fetch_results (snd (CloneInto env r path bare tr)))
                 = Some (Sentinel NoErrAlreadyUpToDate)
            then Log (LogAllRefsUpToDate (FullName r)) else EvGC)"
proof -
  obtain err tr1 where c: "clone_or_update env r path bare tr = (err, tr1)"
    by (cases "clone_or_update env r path bare tr")
  from assms c have e: "\<not> errors_Is err ErrEmptyRemoteRepository"
    and u: "errors_Is err NoErrAlreadyUpToDate \<or> err = None"
    by (simp_all add: reaches_final_refresh_def)
  show ?thesis
  proof (cases "errors_Is err NoErrAlreadyUpToDate")
    case True
    then have "CloneInto env r path bare tr =
                 final_refresh env r (tr1 @ [Log (LogAlreadyUpToDate (FullName r))])"
      using e by (simp add: CloneInto_def c)
    then show ?thesis using final_refresh_result by simp
  next
    case False
    with u have "err = None" by simp
    then have "CloneInto env r path bare tr = final_refresh env r tr1"
      by (simp add: CloneInto_def c)
    then show ?thesis using final_refresh_result by simp
  qed
qed

theorem CloneInto_final_fetch_decides_witness:
  "reaches_final_refresh fresh_clone repo_a ''backup/github/org/a'' False [] \<and>
   fst (CloneInto fresh_clone repo_a ''backup/github/org/a'' False []) = None \<and>
   last (fetch_results (snd (CloneInto fresh_clone repo_a ''backup/github/org/a'' False [])))
     = Some (Sentinel NoErrAlreadyUpToDate) \<and>
   last (snd (CloneInto fresh_clone repo_a ''backup/github/org/a'' False []))
     = Log (LogAllRefsUpToDate ''org/a'')"
proof -
  have h: "reaches_final_refresh fresh_clone repo_a ''backup/github/org/a'' False []"
    by (simp add: reaches_final_refresh_def clone_or_update_def fresh_clone_def Let_def)
  have l: "last (fetch_results (snd (CloneInto fresh_clone repo_a ''backup/github/org/a'' False [])))
             = Some (Sentinel NoErrAlreadyUpToDate)"
    by (simp add: CloneInto_def clone_or_update_def final_refresh_def fetchAllRefs_def
        git_Fetch_def fetch_failed_def fresh_clone_def Let_def)
  show ?thesis
    using h l CloneInto_final_fetch_decides [OF h] by (simp add: repo_a_def)
qed

section \<open>Properties of the run\<close>

lemma after_repos_Nil [simp]: "after_repos fl w n [] st = st"
  by (simp add: after_repos_def)

lemma after_repos_Cons:
  "after_repos fl w n (r # rs) st = after_repos fl w n rs (after_repos fl w n [r] st)"
  by (simp add: after_repos_def)

lemma backup_repos_step_dir_failed:
  assumes "MkdirAll w (target_of fl n r) = Some err"
  shows "backup_repos fl w hook n (r # rs) st =
           (if \<not> failAtEnd fl
            then Inl (notify_and_exit w hook (repoCount st) (errors st + 1)
                        (failedRepos st @ [FullName r @ '' (directory creation failed)'']) 100
                        (after_repos fl w n [r] st))
            else backup_repos fl w hook n rs (after_repos fl w n [r] st))"
  using assms
  by (cases st)
    (simp add: Let_def after_repos_def dir_created_def repo_failed_def failure_texts_def
      repo_calls_def)

lemma backup_repos_step_sync_failed:
  assumes "MkdirAll w (target_of fl n r) = None" and "sync_result fl w n r = Some err"
  shows "backup_repos fl w hook n (r # rs) st =
           (if \<not> failAtEnd fl
            then Inl (notify_and_exit w hook (repoCount st) (errors st + 1)
                        (failedRepos st @ [FullName r @ '' ('' @ Error err @ '')'']) 100
                        ((after_repos fl w n [r] st)\<lparr>repoCount := repoCount st\<rparr>))
            else backup_repos fl w hook n rs (after_repos fl w n [r] st))"
  using assms
  by (cases st)
    (simp add: Let_def after_repos_def dir_created_def repo_failed_def failure_texts_def
      repo_calls_def sync_result_def)

lemma backup_repos_step_ok:
  assumes "MkdirAll w (target_of fl n r) = None" and "sync_result fl w n r = None"
  shows "backup_repos fl w hook n (r # rs) st = backup_repos fl w hook n rs (after_repos fl w n [r] st)"
  using assms
  by (cases st)
    (simp add: Let_def after_repos_def dir_created_def repo_failed_def failure_texts_def
      repo_calls_def sync_result_def)

lemma repo_failed_cases:
  "repo_failed fl w n r \<longleftrightarrow>
     (\<exists>err. MkdirAll w (target_of fl n r) = Some err) \<or>
     (MkdirAll w (target_of fl n r) = None \<and> (\<exists>err. sync_result fl w n r = Some err))"
  by (auto simp: repo_failed_def split: option.splits)

lemma backup_repos_completes:
  "failAtEnd fl \<or> (\<forall>r\<in>set repos. \<not> repo_failed fl w n r) \<Longrightarrow>
   backup_repos fl w hook n repos st = Inr (after_repos fl w n repos st)"
proof (induction repos arbitrary: st)
  case Nil
  then show ?case by simp
next
  case (Cons r rs)
  have rest: "failAtEnd fl \<or> (\<forall>r\<in>set rs. \<not> repo_failed fl w n r)"
    using Cons.prems by auto
  consider (dir) err where "MkdirAll w (target_of fl n r) = Some err"
    | (sync) err where "MkdirAll w (target_of fl n r) = None" "sync_result fl w n r = Some err"
    | (ok) "MkdirAll w (target_of fl n r) = None" "sync_result fl w n r = None"
    by (cases "MkdirAll w (target_of fl n r)"; cases "sync_result fl w n r") auto
  then show ?case
  proof cases
    case dir
    then have "repo_failed fl w n r" by (simp add: repo_failed_cases)
    with Cons.prems have "failAtEnd fl" by auto
    then show ?thesis
      using Cons.IH [OF rest] backup_repos_step_dir_failed [OF dir]
      by (simp add: after_repos_Cons [of fl w n r rs])
  next
    case sync
    then have "repo_failed fl w n r" by (simp add: repo_failed_cases)
    with Cons.prems have "failAtEnd fl" by auto
    then show ?thesis
      using Cons.IH [OF rest] backup_repos_step_sync_failed [OF sync]
      by (simp add: after_repos_Cons [of fl w n r rs])
  next
    case ok
    then show ?thesis
      using Cons.IH [OF rest] backup_repos_step_ok [OF ok]
      by (simp add: after_repos_Cons [of fl w n r rs])
  qed
qed


lemma counts_agree_after_one:
  "counts_agree st \<Longrightarrow> counts_agree (after_repos fl w n [r] st)"
  by (auto simp: counts_agree_def after_repos_def repo_failed_def failure_texts_def split: option.splits)

lemma backup_repos_counts_agree:
  "counts_agree st \<Longrightarrow>
   (case backup_repos fl w hook n repos st of
      Inl out \<Rightarrow> result_agrees out
    | Inr st' \<Rightarrow> counts_agree st')"
proof (induction repos arbitrary: st)
  case Nil
  then show ?case by simp
next
  case (Cons r rs)
  note one = counts_agree_after_one [OF Cons.prems, of fl w n r]
  consider (dir) err where "MkdirAll w (target_of fl n r) = Some err"
    | (sync) err where "MkdirAll w (target_of fl n r) = None" "sync_result fl w n r = Some err"
    | (ok) "MkdirAll w (target_of fl n r) = None" "sync_result fl w n r = None"
    by (cases "MkdirAll w (target_of fl n r)"; cases "sync_result fl w n r") auto
  then show ?case
  proof cases
    case dir
    show ?thesis
      using Cons.IH [OF one] Cons.prems backup_repos_step_dir_failed [OF dir, of hook rs st]
      by (simp add: notify_and_exit_def result_agrees_def counts_agree_def)
  next
    case sync
    show ?thesis
      using Cons.IH [OF one] Cons.prems backup_repos_step_sync_failed [OF sync, of hook rs st]
      by (simp add: notify_and_exit_def result_agrees_def counts_agree_def)
  next
    case ok
    show ?thesis
      using Cons.IH [OF one] backup_repos_step_ok [OF ok, of hook rs st] by simp
  qed
qed

lemma after_listed_Nil [simp]: "after_listed fl w [] st = st"
  by (simp add: after_listed_def)

lemma after_listed_append:
  "after_listed fl w (xs @ ys) st = after_listed fl w ys (after_listed fl w xs st)"
  by (simp add: after_listed_def)

lemma after_listed_Pair: "after_listed fl w (map (Pair n) rs) st = after_repos fl w n rs st"
  by (simp add: after_listed_def after_repos_def comp_def)

lemma listed_Nil [simp]: "listed [] = []"
  by (simp add: listed_def)

lemma listed_Cons: "listed (s # ss) = map (Pair (GetName s)) (repos_of s) @ listed ss"
  by (simp add: listed_def)

lemma listed_append: "listed (xs @ ys) = listed xs @ listed ys"
  by (simp add: listed_def)

lemma none_failed_Pair:
  "none_failed fl w (map (Pair n) rs) = (\<forall>r\<in>set rs. \<not> repo_failed fl w n r)"
  by (auto simp: none_failed_def)

lemma none_failed_append:
  "none_failed fl w (xs @ ys) = (none_failed fl w xs \<and> none_failed fl w ys)"
  by (auto simp: none_failed_def)



lemma backup_sources_healthy_step:
  assumes "healthy s"
  shows "backup_sources fl w hook (s # ss) st =
           (case backup_repos fl w hook (GetName s) (repos_of s) st of
              Inl out \<Rightarrow> Inl out
            | Inr st' \<Rightarrow> backup_sources fl w hook ss st')"
  using assms by (auto simp: healthy_def repos_of_def Let_def split: sum.splits option.splits)

lemma backup_sources_completes:
  "\<forall>s\<in>set srcs. healthy s \<Longrightarrow> failAtEnd fl \<or> none_failed fl w (listed srcs) \<Longrightarrow>
   backup_sources fl w hook srcs st = Inr (after_listed fl w (listed srcs) st)"
proof (induction srcs arbitrary: st)
  case Nil
  then show ?case by simp
next
  case (Cons s ss)
  from Cons.prems have h: "healthy s" and hs: "\<forall>s\<in>set ss. healthy s" by auto
  from Cons.prems(2) have here: "failAtEnd fl \<or> (\<forall>r\<in>set (repos_of s). \<not> repo_failed fl w (GetName s) r)"
    and rest: "failAtEnd fl \<or> none_failed fl w (listed ss)"
    by (auto simp: listed_Cons none_failed_append none_failed_Pair)
  show ?case
    using backup_repos_completes [OF here, of hook st] Cons.IH [OF hs rest]
    by (simp add: backup_sources_healthy_step [OF h] listed_Cons after_listed_append
        after_listed_Pair del: backup_sources.simps)
qed





lemma backup_sources_counts_agree:
  "counts_agree st \<Longrightarrow>
   (case backup_sources fl w hook srcs st of
      Inl out \<Rightarrow> result_agrees out
    | Inr st' \<Rightarrow> counts_agree st')"
proof (induction srcs arbitrary: st)
  case Nil
  then show ?case by simp
next
  case (Cons s ss)
  show ?case
  proof (cases "Test s")
    case (Some err)
    then show ?thesis by (simp add: Let_def notify_and_exit_def result_agrees_def)
  next
    case None
    show ?thesis
    proof (cases "ListRepositories s")
      case (Inl err)
      with None show ?thesis by (simp add: Let_def notify_and_exit_def result_agrees_def)
    next
      case (Inr repos)
      show ?thesis
      proof (cases "backup_repos fl w hook (GetName s) repos st")
        case (Inl o1)
        with backup_repos_counts_agree [OF Cons.prems, of fl w hook "GetName s" repos]
        show ?thesis using None Inr by (simp add: Let_def)
      next
        case (Inr st1)
        with backup_repos_counts_agree [OF Cons.prems, of fl w hook "GetName s" repos]
        have "counts_agree st1" by simp
        from Cons.IH [OF this] show ?thesis
          using None \<open>ListRepositories s = Inr repos\<close> Inr by (simp add: Let_def)
      qed
    qed
  qed
qed

section \<open>Concrete runs, evaluated\<close>

lemma CloneInto_empty_remote [simp]: "fst (CloneInto empty_remote r p b tr) = None"
  by (simp add: CloneInto_empty_clone empty_remote_def errors_Is_def)

lemma CloneInto_network_down [simp]:
  "fst (CloneInto network_down r p b tr) = Some (Other ''dial tcp: connection refused'')"
  by (simp add: CloneInto_def clone_or_update_def network_down_def errors_Is_def Let_def)

lemma CloneInto_fresh_clone [simp]: "fst (CloneInto fresh_clone r p b tr) = None"
  by (simp add: CloneInto_def clone_or_update_def final_refresh_def fetchAllRefs_def
      git_Fetch_def fetch_failed_def fresh_clone_def Let_def)

lemma run_three:
  "main flags_fail_at_end world_three =
     \<lparr>exit_code = 100,
      notification =
        Some \<lparr>RepoCount = 3, ErrorCount = 1, Duration = 1000,
               FailedRepos = [''org/b (dial tcp: connection refused)''],
               StartTime = 0, EndTime = 1000, Success = False\<rparr>,
      last_state =
        \<lparr>repoCount = 3, errors = 1, failedRepos = [''org/b (dial tcp: connection refused)''],
         calls = [CallMkdirAll ''backup/github/org/a'' None,
                  CallCloneInto ''backup/github/org/a'' None,
                  CallMkdirAll ''backup/github/org/b'' None,
                  CallCloneInto ''backup/github/org/b'' (Some (Other ''dial tcp: connection refused'')),
                  CallMkdirAll ''backup/github/org/c'' None,
                  CallCloneInto ''backup/github/org/c'' None]\<rparr>\<rparr>"
  by (simp add: main_def flags_fail_at_end_def world_three_def source_three_def initial_state_def
      target_of_def repo_a_def repo_b_def repo_c_def Let_def)

section \<open>Properties of the summary\<close>

text \<open>
  C9. Every \<^verbatim>\<open>BackupResult\<close> that \<^verbatim>\<open>main\<close> hands to the notifier, at a fatal exit or at the
  end of the run, has \<^verbatim>\<open>ErrorCount\<close> equal to the length of \<^verbatim>\<open>FailedRepos\<close>.
\<close>

theorem main_error_count_is_length_of_failed_repos:
  "notification (main fl w) = Some res \<Longrightarrow> ErrorCount res = int (length (FailedRepos res))"
proof -
  assume n: "notification (main fl w) = Some res"
  have i: "counts_agree initial_state"
    by (simp add: counts_agree_def initial_state_def)
  define hook where "hook = (if slackWebhook fl = [] then SLACK_WEBHOOK_URL w else slackWebhook fl)"
  from n have pv: "\<not> printVersion fl"
    by (auto simp: main_def)
  from n pv obtain srcs where l: "LoadFile w = Inr srcs"
    by (cases "LoadFile w") (auto simp: main_def Let_def)
  from n pv l have ne: "length srcs \<noteq> 0"
    by (auto simp: main_def Let_def)
  show ?thesis
  proof (cases "backup_sources fl w hook srcs initial_state")
    case (Inl out)
    with backup_sources_counts_agree [OF i, of fl w hook srcs] have "result_agrees out" by simp
    moreover from Inl pv l ne have "main fl w = out"
      by (simp add: main_def Let_def hook_def)
    ultimately show ?thesis using n by (simp add: result_agrees_def)
  next
    case (Inr st)
    with backup_sources_counts_agree [OF i, of fl w hook srcs] have "counts_agree st" by simp
    then show ?thesis
      using n Inr pv l ne by (auto simp: main_def Let_def hook_def counts_agree_def split: if_splits)
  qed
qed

theorem main_error_count_is_length_of_failed_repos_witness:
  "\<exists>res. notification (main flags_fail_at_end world_three) = Some res \<and>
         ErrorCount res = 1 \<and> ErrorCount res = int (length (FailedRepos res))"
proof -
  obtain res where n: "notification (main flags_fail_at_end world_three) = Some res"
    and e: "ErrorCount res = 1"
    by (simp add: run_three)
  from main_error_count_is_length_of_failed_repos [OF n] n e show ?thesis by blast
qed

section \<open>Empty remotes\<close>

text \<open>
  C3. When the clone fails with the empty-repository error (wrapped or not), \<^verbatim>\<open>CloneInto\<close>
  logs that the repository is empty and returns \<^verbatim>\<open>nil\<close>, with no further call of go-git.
  In the loop of \<^verbatim>\<open>main\<close> such a repository is not a failure: \<^verbatim>\<open>errors\<close> and
  \<^verbatim>\<open>failedRepos\<close> stay as they are and \<^verbatim>\<open>repoCount\<close> grows by one.
\<close>

theorem CloneInto_empty_remote_is_success:
  "(errors_Is (clone_result env) ErrEmptyRemoteRepository \<longrightarrow>
      CloneInto env r path bare tr =
        (None, tr @ [Log (LogStartingMirrorClone (FullName r)),
                     EvPlainClone path bare
                       \<lparr>CloneURL = URLString (GitURL r), CloneAuth = auth_of r, Mirror = True\<rparr>
                       (clone_result env),
                     Log (LogEmptyRepository (FullName r))])) \<and>
   (MkdirAll w (target_of fl n repo) = None \<and>
    errors_Is (clone_result (git w (target_of fl n repo))) ErrEmptyRemoteRepository \<longrightarrow>
      \<not> repo_failed fl w n repo \<and>
      backup_repos fl w hook n (repo # repos) st =
        backup_repos fl w hook n repos
          (st\<lparr>repoCount := repoCount st + 1,
              calls := calls st @ [CallMkdirAll (target_of fl n repo) None,
                                   CallCloneInto (target_of fl n repo) None]\<rparr>))"
proof (intro conjI impI)
  assume "errors_Is (clone_result env) ErrEmptyRemoteRepository"
  then show "CloneInto env r path bare tr =
        (None, tr @ [Log (LogStartingMirrorClone (FullName r)),
                     EvPlainClone path bare
                       \<lparr>CloneURL = URLString (GitURL r), CloneAuth = auth_of r, Mirror = True\<rparr>
                       (clone_result env),
                     Log (LogEmptyRepository (FullName r))])"
    by (rule CloneInto_empty_clone)
next
  assume a: "MkdirAll w (target_of fl n repo) = None \<and>
    errors_Is (clone_result (git w (target_of fl n repo))) ErrEmptyRemoteRepository"
  then have s: "sync_result fl w n repo = None"
    by (simp add: sync_result_def CloneInto_empty_clone)
  with a show "\<not> repo_failed fl w n repo"
    by (simp add: repo_failed_def)
  from a s show "backup_repos fl w hook n (repo # repos) st =
        backup_repos fl w hook n repos
          (st\<lparr>repoCount := repoCount st + 1,
              calls := calls st @ [CallMkdirAll (target_of fl n repo) None,
                                   CallCloneInto (target_of fl n repo) None]\<rparr>)"
    by (cases st) (simp add: sync_result_def Let_def)
qed

theorem CloneInto_empty_remote_is_success_witness:
  "errors_Is (clone_result empty_remote) ErrEmptyRemoteRepository \<and>
   fst (CloneInto empty_remote repo_a ''backup/github/org/a'' False []) = None \<and>
   last (snd (CloneInto empty_remote repo_a ''backup/github/org/a'' False []))
     = Log (LogEmptyRepository ''org/a'') \<and>
   MkdirAll world_three (target_of flags_fail_at_end ''github'' repo_a) = None \<and>
   errors_Is (clone_result (git world_three (target_of flags_fail_at_end ''github'' repo_a)))
     ErrEmptyRemoteRepository \<and>
   \<not> repo_failed flags_fail_at_end world_three ''github'' repo_a"
proof -
  have h1: "errors_Is (clone_result empty_remote) ErrEmptyRemoteRepository"
    by (simp add: empty_remote_def errors_Is_def)
  have h2: "MkdirAll world_three (target_of flags_fail_at_end ''github'' repo_a) = None \<and>
    errors_Is (clone_result (git world_three (target_of flags_fail_at_end ''github'' repo_a)))
      ErrEmptyRemoteRepository"
    by (simp add: world_three_def target_of_def flags_fail_at_end_def repo_a_def empty_remote_def
        errors_Is_def)
  note t = CloneInto_empty_remote_is_success
    [of empty_remote repo_a "''backup/github/org/a''" False "[]" world_three flags_fail_at_end
      "''github''" repo_a "[]" "[]" initial_state]
  from t h1 have c: "CloneInto empty_remote repo_a ''backup/github/org/a'' False [] =
        (None, [Log (LogStartingMirrorClone (FullName repo_a)),
                     EvPlainClone ''backup/github/org/a'' False
                       \<lparr>CloneURL = URLString (GitURL repo_a), CloneAuth = auth_of repo_a, Mirror = True\<rparr>
                       (clone_result empty_remote),
                     Log (LogEmptyRepository (FullName repo_a))])"
    by simp
  from t h2 have f: "\<not> repo_failed flags_fail_at_end world_three ''github'' repo_a"
    by blast
  show ?thesis
    using h1 h2 c f by (simp add: repo_a_def)
qed

section \<open>The notifier\<close>

text \<open>
  C10, as the code has it. With a webhook URL, a message that marshals and a POST that
  completes, \<^verbatim>\<open>SendSlackNotification\<close> returns an error exactly when the status of the
  response is not 200.
\<close>

theorem SendSlackNotification_fails_unless_200:
  assumes "webhookURL \<noteq> []"
    and "marshal_message net result = Inr payload"
    and "post net webhookURL payload = Inr status"
  shows "(SendSlackNotification net webhookURL result \<noteq> None) = (status \<noteq> 200)"
  using assms by (simp add: SendSlackNotification_def StatusOK_def)

theorem SendSlackNotification_fails_unless_200_witness:
  "''https://hooks.example.org/T'' \<noteq> [] \<and>
   marshal_message (answers 200) some_result = Inr ''{}'' \<and>
   post (answers 200) ''https://hooks.example.org/T'' ''{}'' = Inr 200 \<and>
   SendSlackNotification (answers 200) ''https://hooks.example.org/T'' some_result = None"
proof -
  have h1: "''https://hooks.example.org/T'' \<noteq> []" by simp
  have h2: "marshal_message (answers 200) some_result = Inr ''{}''" by (simp add: answers_def)
  have h3: "post (answers 200) ''https://hooks.example.org/T'' ''{}'' = Inr 200"
    by (simp add: answers_def)
  from SendSlackNotification_fails_unless_200 [OF h1 h2 h3] h2 h3 show ?thesis by simp
qed

text \<open>A response with status 204, a success status, is reported as a failed delivery.\<close>

theorem SendSlackNotification_rejects_204:
  "200 \<le> (204::int) \<and> (204::int) < 300 \<and>
   SendSlackNotification (answers 204) ''https://hooks.example.org/T'' some_result
     = Some (Other ''Slack API returned status code: 204'')"
  by (simp add: SendSlackNotification_def answers_def StatusOK_def sprint_d_def digit_def)

section \<open>Runs that fail at the end\<close>

lemma main_completes:
  assumes "\<not> printVersion fl" and "LoadFile w = Inr srcs" and "srcs \<noteq> []"
    and "\<forall>s\<in>set srcs. healthy s" and "failAtEnd fl \<or> none_failed fl w (listed srcs)"
  shows "main fl w =
           \<lparr>exit_code = (if errors (after_listed fl w (listed srcs) initial_state) > 0 then 100 else 0),
            notification =
              (if (if slackWebhook fl = [] then SLACK_WEBHOOK_URL w else slackWebhook fl) \<noteq> []
               then Some \<lparr>RepoCount = repoCount (after_listed fl w (listed srcs) initial_state),
                          ErrorCount = errors (after_listed fl w (listed srcs) initial_state),
                          Duration = clock w 1 - clock w 0,
                          FailedRepos = failedRepos (after_listed fl w (listed srcs) initial_state),
                          StartTime = clock w 0, EndTime = clock w 1,
                          Success = (errors (after_listed fl w (listed srcs) initial_state) = 0)\<rparr>
               else None),
            last_state = after_listed fl w (listed srcs) initial_state\<rparr>"
  using assms(1-3) backup_sources_completes [OF assms(4,5)]
  by (simp add: main_def Let_def)

lemma after_listed_fields:
  "repoCount (after_listed fl w ls initial_state) = int (length (filter (\<lambda>(n, r). dir_created fl w n r) ls))"
  "errors (after_listed fl w ls initial_state) = int (length (filter (\<lambda>(n, r). repo_failed fl w n r) ls))"
  "failedRepos (after_listed fl w ls initial_state) = concat (map (\<lambda>(n, r). failure_texts fl w n r) ls)"
  "calls (after_listed fl w ls initial_state) = concat (map (\<lambda>(n, r). repo_calls fl w n r) ls)"
  by (simp_all add: after_listed_def initial_state_def)

lemma run_mixed:
  "main flags_fail_at_end world_mixed =
     \<lparr>exit_code = 100,
      notification =
        Some \<lparr>RepoCount = 2, ErrorCount = 2, Duration = 1000,
               FailedRepos = [''org/a (directory creation failed)'',
                              ''org/b (dial tcp: connection refused)''],
               StartTime = 0, EndTime = 1000, Success = False\<rparr>,
      last_state =
        \<lparr>repoCount = 2, errors = 2,
         failedRepos = [''org/a (directory creation failed)'',
                        ''org/b (dial tcp: connection refused)''],
         calls = [CallMkdirAll ''backup/github/org/a'' (Some (Other ''mkdir backup: permission denied'')),
                  CallMkdirAll ''backup/github/org/b'' None,
                  CallCloneInto ''backup/github/org/b'' (Some (Other ''dial tcp: connection refused'')),
                  CallMkdirAll ''backup/github/org/c'' None,
                  CallCloneInto ''backup/github/org/c'' None]\<rparr>\<rparr>"
  by (simp add: main_def flags_fail_at_end_def world_mixed_def source_three_def initial_state_def target_of_def
      repo_a_def repo_b_def repo_c_def Let_def)

lemma run_no_directory:
  "main flags_fail_at_end world_no_directory =
     \<lparr>exit_code = 100,
      notification =
        Some \<lparr>RepoCount = 0, ErrorCount = 1, Duration = 1000,
               FailedRepos = [''org/a (directory creation failed)''],
               StartTime = 0, EndTime = 1000, Success = False\<rparr>,
      last_state =
        \<lparr>repoCount = 0, errors = 1, failedRepos = [''org/a (directory creation failed)''],
         calls = [CallMkdirAll ''backup/github/org/a''
                    (Some (Other ''mkdir backup: permission denied''))]\<rparr>\<rparr>"
  by (simp add: main_def flags_fail_at_end_def world_no_directory_def source_one_def initial_state_def
      target_of_def repo_a_def Let_def)

text \<open>
  C7, as the code has it. With fail-at-end, when every source can be reached and lists its
  repositories, the loop goes through every listed repository in order: each gets its
  \<^verbatim>\<open>MkdirAll\<close>, and its \<^verbatim>\<open>CloneInto\<close> when the directory exists, whatever happened to the
  repositories before it. At the end \<^verbatim>\<open>ErrorCount\<close> is the number of repositories whose
  directory or sync failed, and \<^verbatim>\<open>RepoCount\<close> is the number of repositories whose sync was
  attempted, that is, whose directory could be created: all the listed repositories when
  no directory creation fails, whatever the syncs did.
\<close>

theorem fail_at_end_attempts_every_repository:
  assumes "\<not> printVersion fl" and "failAtEnd fl" and "LoadFile w = Inr srcs" and "srcs \<noteq> []"
    and "\<forall>s\<in>set srcs. healthy s"
  shows "calls (last_state (main fl w)) = concat (map (\<lambda>(n, r). repo_calls fl w n r) (listed srcs)) \<and>
         errors (last_state (main fl w))
           = int (length (filter (\<lambda>(n, r). repo_failed fl w n r) (listed srcs))) \<and>
         repoCount (last_state (main fl w))
           = int (length (filter (\<lambda>(n, r). dir_created fl w n r) (listed srcs))) \<and>
         ((\<forall>(n, r)\<in>set (listed srcs). dir_created fl w n r) \<longrightarrow>
            repoCount (last_state (main fl w)) = int (length (listed srcs))) \<and>
         failedRepos (last_state (main fl w))
           = concat (map (\<lambda>(n, r). failure_texts fl w n r) (listed srcs)) \<and>
         (\<forall>res. notification (main fl w) = Some res \<longrightarrow>
                RepoCount res = repoCount (last_state (main fl w)) \<and>
                ErrorCount res = errors (last_state (main fl w)) \<and>
                FailedRepos res = failedRepos (last_state (main fl w))) \<and>
         (slackWebhook fl \<noteq> [] \<longrightarrow> notification (main fl w) \<noteq> None)"
proof -
  from assms(2) have c: "failAtEnd fl \<or> none_failed fl w (listed srcs)" by simp
  note m = main_completes [OF assms(1,3,4,5) c]
  have all: "(\<forall>(n, r)\<in>set (listed srcs). dir_created fl w n r) \<longrightarrow>
               filter (\<lambda>(n, r). dir_created fl w n r) (listed srcs) = listed srcs"
    by (auto simp: filter_id_conv)
  show ?thesis
    using all by (auto simp: m after_listed_fields)
qed

theorem fail_at_end_attempts_every_repository_witness:
  "\<not> printVersion flags_fail_at_end \<and> failAtEnd flags_fail_at_end \<and>
   LoadFile world_mixed = Inr [source_three] \<and> [source_three] \<noteq> [] \<and> healthy source_three \<and>
   listed [source_three] = [(''github'', repo_a), (''github'', repo_b), (''github'', repo_c)] \<and>
   int (length (filter (\<lambda>(n, r). repo_failed flags_fail_at_end world_mixed n r)
                  (listed [source_three]))) = 2 \<and>
   int (length (filter (\<lambda>(n, r). dir_created flags_fail_at_end world_mixed n r)
                  (listed [source_three]))) = 2 \<and>
   map_option RepoCount (notification (main flags_fail_at_end world_mixed)) = Some 2 \<and>
   map_option ErrorCount (notification (main flags_fail_at_end world_mixed)) = Some 2"
proof -
  have h1: "\<not> printVersion flags_fail_at_end" and h2: "failAtEnd flags_fail_at_end"
    by (simp_all add: flags_fail_at_end_def)
  have h3: "LoadFile world_mixed = Inr [source_three]"
    by (simp add: world_mixed_def source_three_def)
  have h4: "[source_three] \<noteq> []" by simp
  have h5: "\<forall>s\<in>set [source_three]. healthy s"
    by (simp add: healthy_def source_three_def)
  have l: "listed [source_three] = [(''github'', repo_a), (''github'', repo_b), (''github'', repo_c)]"
    by (simp add: listed_def repos_of_def source_three_def)
  note t = fail_at_end_attempts_every_repository [OF h1 h2 h3 h4 h5]
  from t have e: "errors (last_state (main flags_fail_at_end world_mixed))
      = int (length (filter (\<lambda>(n, r). repo_failed flags_fail_at_end world_mixed n r)
                       (listed [source_three])))"
    and c: "repoCount (last_state (main flags_fail_at_end world_mixed))
      = int (length (filter (\<lambda>(n, r). dir_created flags_fail_at_end world_mixed n r)
                       (listed [source_three])))"
    by simp_all
  show ?thesis
    using h1 h2 h3 h5 l e c by (simp add: run_mixed)
qed

text \<open>
  With fail-at-end, a repository whose directory cannot be created is skipped before the
  counter: one repository is listed and \<^verbatim>\<open>RepoCount\<close> is 0.
\<close>

theorem fail_at_end_directory_failure_is_not_counted:
  "failAtEnd flags_fail_at_end \<and>
   LoadFile world_no_directory = Inr [source_one] \<and>
   listed [source_one] = [(''github'', repo_a)] \<and>
   map_option RepoCount (notification (main flags_fail_at_end world_no_directory)) = Some 0 \<and>
   map_option ErrorCount (notification (main flags_fail_at_end world_no_directory)) = Some 1 \<and>
   repoCount (last_state (main flags_fail_at_end world_no_directory))
     \<noteq> int (length (listed [source_one]))"
proof -
  have a: "failAtEnd flags_fail_at_end"
    by (simp add: flags_fail_at_end_def)
  have b: "LoadFile world_no_directory = Inr [source_one]"
    by (simp add: world_no_directory_def)
  have c: "listed [source_one] = [(''github'', repo_a)]"
    by (simp add: listed_def repos_of_def source_one_def)
  show ?thesis
    using a b c by (simp add: run_no_directory)
qed

section \<open>Three repositories: one empty, one unreachable, one healthy\<close>

lemma CloneInto_clone_error:
  "clone_result env = Some cause \<Longrightarrow> \<forall>t. \<not> unwraps_to cause t \<Longrightarrow>
   fst (CloneInto env r p b tr) = Some cause"
  by (simp add: CloneInto_def clone_or_update_def errors_Is_def Let_def)

lemma concat_map_nonempty: "concat (map g xs) = concat (map g (filter (\<lambda>x. g x \<noteq> []) xs))"
  by (induction xs) auto

lemma failure_texts_nonempty: "(failure_texts fl w n r \<noteq> []) = repo_failed fl w n r"
  by (auto simp: failure_texts_def repo_failed_def split: option.splits)

lemma after_repos_fields:
  "repoCount (after_repos fl w n rs initial_state) = int (length (filter (dir_created fl w n) rs))"
  "errors (after_repos fl w n rs initial_state) = int (length (filter (repo_failed fl w n) rs))"
  "failedRepos (after_repos fl w n rs initial_state)
     = concat (map (failure_texts fl w n) (filter (repo_failed fl w n) rs))"
proof -
  show "repoCount (after_repos fl w n rs initial_state) = int (length (filter (dir_created fl w n) rs))"
    and "errors (after_repos fl w n rs initial_state) = int (length (filter (repo_failed fl w n) rs))"
    by (simp_all add: after_repos_def initial_state_def)
  have "failedRepos (after_repos fl w n rs initial_state) = concat (map (failure_texts fl w n) rs)"
    by (simp add: after_repos_def initial_state_def)
  also have "\<dots> = concat (map (failure_texts fl w n) (filter (\<lambda>r. failure_texts fl w n r \<noteq> []) rs))"
    by (rule concat_map_nonempty)
  finally show "failedRepos (after_repos fl w n rs initial_state)
     = concat (map (failure_texts fl w n) (filter (repo_failed fl w n) rs))"
    by (simp add: failure_texts_nonempty)
qed

text \<open>
  C1, as the code has it. A run with fail-at-end over one source that lists three
  repositories, in any order: one whose clone reports an empty remote, one whose clone
  fails with an error that is none of go-git's three sentinels (a network error), one
  that syncs. All three directories can be created. Then \<^verbatim>\<open>RepoCount\<close> is 3: the sync of
  each of the three was attempted, and the failed one is counted with the others.
  \<^verbatim>\<open>ErrorCount\<close> is 1 and \<^verbatim>\<open>FailedRepos\<close> has one entry, the name of the failed repository
  with the text of the error. The process exits with code 100.
\<close>

theorem three_repositories_one_empty_one_unreachable:
  assumes "\<not> printVersion fl" and "failAtEnd fl"
    and "LoadFile w = Inr [s]" and "Test s = None" and "ListRepositories s = Inr repos"
    and "mset repos = {#e, f, g#}"
    and "\<forall>r\<in>set repos. MkdirAll w (target_of fl (GetName s) r) = None"
    and "errors_Is (clone_result (git w (target_of fl (GetName s) e))) ErrEmptyRemoteRepository"
    and "clone_result (git w (target_of fl (GetName s) f)) = Some cause"
    and "\<forall>t. \<not> unwraps_to cause t"
    and "sync_result fl w (GetName s) g = None"
  shows "repoCount (last_state (main fl w)) = 3 \<and>
         errors (last_state (main fl w)) = 1 \<and>
         failedRepos (last_state (main fl w)) = [FullName f @ '' ('' @ Error cause @ '')''] \<and>
         exit_code (main fl w) = 100 \<and>
         (\<forall>res. notification (main fl w) = Some res \<longrightarrow>
                RepoCount res = 3 \<and> ErrorCount res = 1 \<and>
                FailedRepos res = [FullName f @ '' ('' @ Error cause @ '')'']) \<and>
         (slackWebhook fl \<noteq> [] \<longrightarrow> notification (main fl w) \<noteq> None)"
proof -
  define n where "n = GetName s"
  have h: "\<forall>x\<in>set [s]. healthy x"
    using assms(4,5) by (simp add: healthy_def)
  have l: "listed [s] = map (Pair n) repos"
    using assms(5) by (simp add: listed_def repos_of_def n_def)
  have c: "failAtEnd fl \<or> none_failed fl w (listed [s])"
    using assms(2) by simp
  have ne: "[s] \<noteq> []" by simp
  note m = main_completes [OF assms(1,3) ne h c]
  have st: "after_listed fl w (listed [s]) initial_state = after_repos fl w n repos initial_state"
    by (simp add: l after_listed_Pair)
  have mem: "e \<in> set repos" "f \<in> set repos" "g \<in> set repos"
    using assms(6) by (metis set_mset_mset insert_iff set_mset_add_mset_insert)+
  have dirs: "\<forall>r\<in>set repos. dir_created fl w n r"
    using assms(7) by (simp add: dir_created_def n_def)
  have se: "sync_result fl w n e = None"
    using assms(8) by (simp add: sync_result_def CloneInto_empty_clone n_def)
  have sf: "sync_result fl w n f = Some cause"
    using assms(9,10) by (simp add: sync_result_def CloneInto_clone_error n_def)
  have sg: "sync_result fl w n g = None"
    using assms(11) by (simp add: n_def)
  have pe: "\<not> repo_failed fl w n e" and pf: "repo_failed fl w n f" and pg: "\<not> repo_failed fl w n g"
    using mem dirs se sf sg by (simp_all add: repo_failed_def dir_created_def)
  have "mset (filter (repo_failed fl w n) repos) = filter_mset (repo_failed fl w n) (mset repos)"
    by (rule mset_filter)
  also have "\<dots> = filter_mset (repo_failed fl w n) {#e, f, g#}"
    by (simp only: assms(6))
  also have "\<dots> = {#f#}"
    using pe pf pg by simp
  finally have "mset (filter (repo_failed fl w n) repos) = {#f#}" .
  then have failed: "filter (repo_failed fl w n) repos = [f]"
    by (simp only: mset_single_iff)
  have "length repos = size (mset repos)" by simp
  also have "\<dots> = 3" using assms(6) by simp
  finally have len: "length repos = 3" .
  have created: "filter (dir_created fl w n) repos = repos"
    using dirs by simp
  have ft: "failure_texts fl w n f = [FullName f @ '' ('' @ Error cause @ '')'']"
    using mem(2) dirs sf by (simp add: failure_texts_def dir_created_def)
  have rc: "repoCount (after_repos fl w n repos initial_state) = 3"
    and ec: "errors (after_repos fl w n repos initial_state) = 1"
    and fr: "failedRepos (after_repos fl w n repos initial_state)
               = [FullName f @ '' ('' @ Error cause @ '')'']"
    by (simp_all add: after_repos_fields failed created len ft)
  show ?thesis
    by (auto simp: m st rc ec fr)
qed

theorem three_repositories_one_empty_one_unreachable_witness:
  "\<not> printVersion flags_fail_at_end \<and> failAtEnd flags_fail_at_end \<and>
   LoadFile world_three = Inr [source_three] \<and> Test source_three = None \<and>
   ListRepositories source_three = Inr [repo_a, repo_b, repo_c] \<and>
   mset [repo_a, repo_b, repo_c] = {#repo_a, repo_b, repo_c#} \<and>
   errors_Is (clone_result (git world_three (target_of flags_fail_at_end (GetName source_three) repo_a)))
     ErrEmptyRemoteRepository \<and>
   clone_result (git world_three (target_of flags_fail_at_end (GetName source_three) repo_b))
     = Some (Other ''dial tcp: connection refused'') \<and>
   sync_result flags_fail_at_end world_three (GetName source_three) repo_c = None \<and>
   repoCount (last_state (main flags_fail_at_end world_three)) = 3 \<and>
   errors (last_state (main flags_fail_at_end world_three)) = 1 \<and>
   failedRepos (last_state (main flags_fail_at_end world_three))
     = [''org/b (dial tcp: connection refused)'']"
proof -
  have h1: "\<not> printVersion flags_fail_at_end" and h2: "failAtEnd flags_fail_at_end"
    by (simp_all add: flags_fail_at_end_def)
  have h3: "LoadFile world_three = Inr [source_three]"
    by (simp add: world_three_def)
  have h4: "Test source_three = None"
    and h5: "ListRepositories source_three = Inr [repo_a, repo_b, repo_c]"
    by (simp_all add: source_three_def)
  have h6: "mset [repo_a, repo_b, repo_c] = {#repo_a, repo_b, repo_c#}"
    by simp
  have h7: "\<forall>r\<in>set [repo_a, repo_b, repo_c].
              MkdirAll world_three (target_of flags_fail_at_end (GetName source_three) r) = None"
    by (simp add: world_three_def)
  have h8: "errors_Is (clone_result (git world_three
              (target_of flags_fail_at_end (GetName source_three) repo_a))) ErrEmptyRemoteRepository"
    by (simp add: world_three_def target_of_def flags_fail_at_end_def source_three_def repo_a_def
        empty_remote_def errors_Is_def)
  have h9: "clone_result (git world_three (target_of flags_fail_at_end (GetName source_three) repo_b))
              = Some (Other ''dial tcp: connection refused'')"
    by (simp add: world_three_def target_of_def flags_fail_at_end_def source_three_def repo_b_def
        network_down_def)
  have h10: "\<forall>t. \<not> unwraps_to (Other ''dial tcp: connection refused'') t"
    by simp
  have h11: "sync_result flags_fail_at_end world_three (GetName source_three) repo_c = None"
    by (simp add: sync_result_def world_three_def target_of_def flags_fail_at_end_def
        source_three_def repo_c_def)
  note t = three_repositories_one_empty_one_unreachable [OF h1 h2 h3 h4 h5 h6 h7 h8 h9 h10 h11]
  show ?thesis
    using h1 h2 h3 h4 h5 h8 h9 h11 t by (simp add: repo_b_def)
qed

text \<open>
  The run of \<open>world_three\<close>: the empty repository, the unreachable one and the healthy
  one are all counted, so \<^verbatim>\<open>RepoCount\<close> is 3 and not 2.
\<close>

theorem three_repositories_counted_as_three:
  "LoadFile world_three = Inr [source_three] \<and>
   ListRepositories source_three = Inr [repo_a, repo_b, repo_c] \<and>
   failAtEnd flags_fail_at_end \<and>
   errors_Is (clone_result (git world_three ''backup/github/org/a'')) ErrEmptyRemoteRepository \<and>
   clone_result (git world_three ''backup/github/org/b'') = Some (Other ''dial tcp: connection refused'') \<and>
   fst (CloneInto (git world_three ''backup/github/org/c'') repo_c ''backup/github/org/c'' False []) = None \<and>
   notification (main flags_fail_at_end world_three) =
     Some \<lparr>RepoCount = 3, ErrorCount = 1, Duration = 1000,
            FailedRepos = [''org/b (dial tcp: connection refused)''],
            StartTime = 0, EndTime = 1000, Success = False\<rparr> \<and>
   map_option RepoCount (notification (main flags_fail_at_end world_three)) \<noteq> Some 2"
proof -
  have a: "LoadFile world_three = Inr [source_three]"
    by (simp add: world_three_def)
  have b: "ListRepositories source_three = Inr [repo_a, repo_b, repo_c]"
    by (simp add: source_three_def)
  have c: "failAtEnd flags_fail_at_end"
    by (simp add: flags_fail_at_end_def)
  have d: "errors_Is (clone_result (git world_three ''backup/github/org/a'')) ErrEmptyRemoteRepository"
    by (simp add: world_three_def empty_remote_def errors_Is_def)
  have e: "clone_result (git world_three ''backup/github/org/b'')
             = Some (Other ''dial tcp: connection refused'')"
    by (simp add: world_three_def network_down_def)
  have f: "fst (CloneInto (git world_three ''backup/github/org/c'') repo_c ''backup/github/org/c''
                  False []) = None"
    by (simp add: world_three_def)
  show ?thesis
    using a b c d e f by (simp add: run_three)
qed

section \<open>Exit codes\<close>












section \<open>Calling the sync engine twice\<close>

lemma not_failed_cases: "\<not> fetch_failed err \<longleftrightarrow> err = None \<or> err = Some (Sentinel NoErrAlreadyUpToDate)"
  by (auto simp: fetch_failed_def)








section \<open>How often the refs are fetched\<close>

text \<open>
  After a successful clone, and after the pull of a repository with a working tree, the
  refs are fetched once: the branch fetch, the tag fetch, and the fallback when the tag
  fetch failed.
\<close>

lemma fetchAllRefs_options:
  "fetch_options (snd (fetchAllRefs env r auth tr)) =
     fetch_options tr @ [branch_fetch auth, tag_fetch auth]
       @ (if fetch_failed (fetch_result env (Suc (length (filter is_fetch tr))))
          then [tag_fallback_fetch auth] else [])"
  by (simp add: fetchAllRefs_trace Let_def)

lemma final_refresh_options:
  "fetch_options (snd (final_refresh env r tr)) =
     fetch_options tr @ [branch_fetch (auth_of r), tag_fetch (auth_of r)]
       @ (if fetch_failed (fetch_result env (Suc (length (filter is_fetch tr))))
          then [tag_fallback_fetch (auth_of r)] else [])"
proof -
  obtain err tr1 where
    f: "fetchAllRefs env r (auth_of r) (tr @ [Log (LogFetchingAll (FullName r))]) = (err, tr1)"
    by (cases "fetchAllRefs env r (auth_of r) (tr @ [Log (LogFetchingAll (FullName r))])")
  from fetchAllRefs_options [of env r "auth_of r" "tr @ [Log (LogFetchingAll (FullName r))]"] f
  show ?thesis
    by (simp add: final_refresh_def Let_def)
qed

lemma CloneInto_after_clone_fetches_once:
  assumes "clone_result env = None"
  shows "fetch_options (snd (CloneInto env r path bare [])) =
           [branch_fetch (auth_of r), tag_fetch (auth_of r)]
             @ (if fetch_failed (fetch_result env (Suc 0)) then [tag_fallback_fetch (auth_of r)] else [])"
  using assms
  by (simp add: CloneInto_def clone_or_update_def Let_def final_refresh_options)

lemma CloneInto_after_pull_fetches_once:
  assumes "clone_result env = Some (Sentinel ErrRepositoryAlreadyExists)" and "open_result env = None"
    and "config_result env = Inr False" and "worktree_result env = None"
    and "\<not> fetch_failed (pull_result env)"
  shows "fetch_options (snd (CloneInto env r path bare [])) =
           [branch_fetch (auth_of r), tag_fetch (auth_of r)]
             @ (if fetch_failed (fetch_result env (Suc 0)) then [tag_fallback_fetch (auth_of r)] else [])"
proof -
  from assms(5) consider "pull_result env = None"
    | "pull_result env = Some (Sentinel NoErrAlreadyUpToDate)"
    by (auto simp: not_failed_cases)
  then show ?thesis
  proof cases
    case 1
    with assms(1-4) show ?thesis
      by (simp add: CloneInto_def clone_or_update_def open_existing_def isBare_def Let_def
          final_refresh_options)
  next
    case 2
    with assms(1-4) show ?thesis
      by (simp add: CloneInto_def clone_or_update_def open_existing_def isBare_def Let_def
          final_refresh_options)
  qed
qed

text \<open>
  C5, at an existing bare repository whose remote has not changed: \<^verbatim>\<open>CloneInto\<close> succeeds
  after four fetches, the branch fetch and the tag fetch run twice over. The bare branch
  has called \<^verbatim>\<open>fetchAllRefs\<close> already when the first \<^verbatim>\<open>switch\<close> sends its result, \<^verbatim>\<open>nil\<close> or
  already up to date, to the final refresh.
\<close>

theorem CloneInto_existing_bare_fetches_twice:
  "fetch_options (snd (CloneInto existing_bare_up_to_date repo_a ''backup/github/org/a'' True []))
     = [branch_fetch None, tag_fetch None, branch_fetch None, tag_fetch None] \<and>
   fst (CloneInto existing_bare_up_to_date repo_a ''backup/github/org/a'' True []) = None"
  by (simp add: CloneInto_def clone_or_update_def open_existing_def isBare_def final_refresh_def
      fetchAllRefs_def git_Fetch_def fetch_failed_def existing_bare_up_to_date_def repo_a_def
      auth_of_def Let_def)

end
